theory Spec2Isabelle
  imports Main
begin

section \<open>Configuration values\<close>

text \<open>
  The file \<open>packages/auth-construct/src/types.ts\<close> declares TypeScript types only. A type
  is embedded as the set of configuration values it admits, so that "is a value of the
  shape" is a statement that can be proved or refuted at a concrete value.

  A configuration value is what an object literal of the source language denotes:
  \<open>undefined\<close>, \<open>null\<close>, booleans, numbers, strings, the message-template functions
  \<open>(code: string) => string\<close>, instances of classes of the SDK (named by their class),
  arrays, and objects. An object is a finite map from property names to values; a
  property that is absent is \<open>None\<close>.
\<close>

datatype jsval =
    VUndefined
  | VNull
  | VBool bool
  | VNum int
  | VStr string
  | VFun "string \<Rightarrow> string"
  | VInst string
  | VArr "jsval list"
  | VObj "string \<Rightarrow> jsval option"

text \<open>
  A type has two parts. \<open>conf T v\<close>: the value has the form \<open>T\<close> asks for (for an object
  type, every declared property is there unless it is optional, and holds an accepted
  value). \<open>known T\<close>: the property names \<open>T\<close> declares. A literal is accepted by \<open>T\<close> when
  it conforms and, being an object, names no property that \<open>T\<close> does not declare (the
  excess property check of the type checker on object literals; for a union or an
  intersection the declared names are those of all its members). Types are read under
  strict null checks: \<open>undefined\<close> and \<open>null\<close> belong to no declared type, and
  \<open>undefined\<close> is admitted only as the value of an optional property.
\<close>

record ty =
  conf :: "jsval \<Rightarrow> bool"
  known :: "string set"

definition accepts :: "ty \<Rightarrow> jsval \<Rightarrow> bool" where
  "accepts T v \<longleftrightarrow> conf T v \<and> (case v of VObj m \<Rightarrow> dom m \<subseteq> known T | _ \<Rightarrow> True)"

text \<open>
  A property declaration \<open>k: T\<close> (\<open>req\<close>) or \<open>k?: T\<close> (\<open>opt\<close>). An optional property may
  be absent or hold \<open>undefined\<close>; a required one must hold an accepted value.
\<close>

record property =
  pname :: string
  optional :: bool
  ptype :: ty

definition req :: "string \<Rightarrow> ty \<Rightarrow> property" where
  "req k T = \<lparr>pname = k, optional = False, ptype = T\<rparr>"

definition opt :: "string \<Rightarrow> ty \<Rightarrow> property" where
  "opt k T = \<lparr>pname = k, optional = True, ptype = T\<rparr>"

definition prop_ok :: "(string \<Rightarrow> jsval option) \<Rightarrow> property \<Rightarrow> bool" where
  "prop_ok m p =
     (case m (pname p) of
        None \<Rightarrow> optional p
      | Some x \<Rightarrow> (optional p \<and> x = VUndefined) \<or> accepts (ptype p) x)"

text \<open>The type constructors the file uses.\<close>

definition tObj :: "property list \<Rightarrow> ty" where
  \<comment> \<open>an object type literal \<open>{ k1: T1; k2?: T2; ... }\<close>\<close>
  "tObj ps = \<lparr>conf = (\<lambda>v. case v of VObj m \<Rightarrow> list_all (prop_ok m) ps | _ \<Rightarrow> False),
             known = set (map pname ps)\<rparr>"

definition tUnion :: "ty \<Rightarrow> ty \<Rightarrow> ty" where
  \<comment> \<open>\<open>A | B\<close>\<close>
  "tUnion A B = \<lparr>conf = (\<lambda>v. conf A v \<or> conf B v), known = known A \<union> known B\<rparr>"

definition tInter :: "ty \<Rightarrow> ty \<Rightarrow> ty" where
  \<comment> \<open>\<open>A & B\<close>\<close>
  "tInter A B = \<lparr>conf = (\<lambda>v. conf A v \<and> conf B v), known = known A \<union> known B\<rparr>"

definition tTrue :: ty where
  \<comment> \<open>the literal type \<open>true\<close>\<close>
  "tTrue = \<lparr>conf = (\<lambda>v. v = VBool True), known = {}\<rparr>"

definition tBoolean :: ty where
  \<comment> \<open>\<open>boolean\<close>\<close>
  "tBoolean = \<lparr>conf = (\<lambda>v. case v of VBool b \<Rightarrow> True | _ \<Rightarrow> False), known = {}\<rparr>"

definition tString :: ty where
  \<comment> \<open>\<open>string\<close>\<close>
  "tString = \<lparr>conf = (\<lambda>v. case v of VStr s \<Rightarrow> True | _ \<Rightarrow> False), known = {}\<rparr>"

definition tLit :: "string \<Rightarrow> ty" where
  \<comment> \<open>a string literal type such as \<open>'CODE'\<close>\<close>
  "tLit s = \<lparr>conf = (\<lambda>v. v = VStr s), known = {}\<rparr>"

definition tTemplate :: ty where
  \<comment> \<open>the function type \<open>(code: string) => string\<close>\<close>
  "tTemplate = \<lparr>conf = (\<lambda>v. case v of VFun f \<Rightarrow> True | _ \<Rightarrow> False), known = {}\<rparr>"

definition tArray :: "ty \<Rightarrow> ty" where
  \<comment> \<open>\<open>T[]\<close>\<close>
  "tArray T = \<lparr>conf = (\<lambda>v. case v of VArr xs \<Rightarrow> list_all (accepts T) xs | _ \<Rightarrow> False),
              known = {}\<rparr>"

definition tInst :: "string \<Rightarrow> ty" where
  \<comment> \<open>the instances of the SDK class of that name\<close>
  "tInst c = \<lparr>conf = (\<lambda>v. v = VInst c), known = {}\<rparr>"

definition Omit :: "property list \<Rightarrow> string list \<Rightarrow> property list" where
  \<comment> \<open>\<open>Omit<T, K>\<close>: the properties of the interface \<open>T\<close> whose names are not in \<open>K\<close>\<close>
  "Omit ps ks = filter (\<lambda>p. pname p \<notin> set ks) ps"

definition drop_key :: "string \<Rightarrow> jsval \<Rightarrow> jsval" where
  \<comment> \<open>the same literal with the property \<open>k\<close> left out\<close>
  "drop_key k v = (case v of VObj m \<Rightarrow> VObj (m(k := None)) | _ \<Rightarrow> v)"


section \<open>The declarations of types.ts\<close>

text \<open>
  The types imported from \<open>aws-cdk-lib\<close>, \<open>@aws-amplify/plugin-types\<close> and
  \<open>@aws-amplify/backend-output-schemas\<close> are declared outside the repository. They are
  parameters of the model: the opaque ones as types, the provider props interfaces as
  their property lists (which is what \<open>Omit\<close> works on). \<open>TriggerEvent\<close> is the element
  type of \<open>triggerEvents\<close> from \<open>./trigger_events.js\<close>; no shape of this file refers to
  it, and it is left out.
\<close>

record sdk =
  SecretValue :: ty
  OAuthScope :: ty
  AccountRecovery :: ty
  StandardAttributes :: ty
  BackendOutputStorageStrategy_AuthOutput :: ty
  UserPoolIdentityProviderGoogleProps :: "property list"
  UserPoolIdentityProviderAppleProps :: "property list"
  UserPoolIdentityProviderAmazonProps :: "property list"
  UserPoolIdentityProviderFacebookProps :: "property list"
  UserPoolIdentityProviderOidcProps :: "property list"
  UserPoolIdentityProviderSamlProps :: "property list"

definition EmailLoginSettings :: ty where
  "EmailLoginSettings = tObj
     [opt ''verificationEmailStyle'' (tUnion (tLit ''CODE'') (tLit ''LINK'')),
      opt ''verificationEmailBody'' tTemplate,
      opt ''verificationEmailSubject'' tString]"

definition EmailLogin :: ty where
  "EmailLogin = tUnion tTrue EmailLoginSettings"

definition PhoneNumberLogin :: ty where
  "PhoneNumberLogin = tUnion tTrue (tObj [opt ''verificationMessage'' tTemplate])"

definition BasicLoginOptions :: ty where
  "BasicLoginOptions = tUnion
     (tObj [req ''email'' EmailLogin, opt ''phone'' PhoneNumberLogin])
     (tObj [opt ''email'' EmailLogin, req ''phone'' PhoneNumberLogin])"

definition MFASettings :: ty where
  "MFASettings = tObj
     [req ''totp'' tBoolean,
      req ''sms'' (tUnion tBoolean (tObj [req ''smsMessage'' tTemplate]))]"

definition MFA :: ty where
  "MFA = tInter
     (tObj [req ''enforcementType''
              (tUnion (tLit ''OFF'') (tUnion (tLit ''OPTIONAL'') (tLit ''REQUIRED'')))])
     MFASettings"

definition GoogleProviderProps :: "sdk \<Rightarrow> ty" where
  "GoogleProviderProps s = tInter
     (tObj (Omit (UserPoolIdentityProviderGoogleProps s)
                 [''userPool'', ''clientSecretValue'', ''clientSecret'']))
     (tObj [opt ''clientSecret'' (SecretValue s)])"

definition AppleProviderProps :: "sdk \<Rightarrow> ty" where
  "AppleProviderProps s = tObj (Omit (UserPoolIdentityProviderAppleProps s) [''userPool''])"

definition AmazonProviderProps :: "sdk \<Rightarrow> ty" where
  "AmazonProviderProps s = tObj (Omit (UserPoolIdentityProviderAmazonProps s) [''userPool''])"

definition FacebookProviderProps :: "sdk \<Rightarrow> ty" where
  "FacebookProviderProps s =
     tObj (Omit (UserPoolIdentityProviderFacebookProps s) [''userPool''])"

definition OidcProviderProps :: "sdk \<Rightarrow> ty" where
  "OidcProviderProps s = tObj (Omit (UserPoolIdentityProviderOidcProps s) [''userPool''])"

definition SamlProviderProps :: "sdk \<Rightarrow> ty" where
  "SamlProviderProps s = tObj (Omit (UserPoolIdentityProviderSamlProps s) [''userPool''])"

definition ExternalProviderOptions :: "sdk \<Rightarrow> ty" where
  "ExternalProviderOptions s = tObj
     [opt ''google'' (GoogleProviderProps s),
      opt ''facebook'' (FacebookProviderProps s),
      opt ''loginWithAmazon'' (AmazonProviderProps s),
      opt ''signInWithApple'' (AppleProviderProps s),
      opt ''oidc'' (OidcProviderProps s),
      opt ''saml'' (SamlProviderProps s),
      opt ''scopes'' (tArray (OAuthScope s)),
      opt ''callbackUrls'' (tArray tString),
      opt ''logoutUrls'' (tArray tString)]"

definition ExternalProviderProps :: "sdk \<Rightarrow> ty" where
  "ExternalProviderProps s = tObj [opt ''externalProviders'' (ExternalProviderOptions s)]"

definition AuthProps :: "sdk \<Rightarrow> ty" where
  "AuthProps s = tObj
     [req ''loginWith'' (tInter BasicLoginOptions (ExternalProviderProps s)),
      opt ''userAttributes'' (StandardAttributes s),
      opt ''multifactor'' MFA,
      opt ''accountRecovery'' (AccountRecovery s),
      opt ''outputStorageStrategy'' (BackendOutputStorageStrategy_AuthOutput s)]"


section \<open>The entry point for the documentation tool\<close>

text \<open>
  The second file is a module: a list of statements. \<open>export * from 'path'\<close> is
  \<open>ExportAllFrom\<close>; the other kinds of statement a module can hold are declarations of
  its own (types, values) and statements that run (logic).
\<close>

datatype statement =
    ExportAllFrom string
  | TypeDeclaration string
  | ValueDeclaration string
  | Logic string

definition part_000 :: "statement list" where
  "part_000 =
     [ExportAllFrom ''./conversation/index.js'',
      ExportAllFrom ''./conversation/lambda/index.js'']"

fun reexported :: "statement list \<Rightarrow> string list" where
  "reexported [] = []"
| "reexported (ExportAllFrom p # ss) = p # reexported ss"
| "reexported (_ # ss) = reexported ss"

fun own_statements :: "statement list \<Rightarrow> statement list" where
  "own_statements [] = []"
| "own_statements (ExportAllFrom p # ss) = own_statements ss"
| "own_statements (s # ss) = s # own_statements ss"


section \<open>A sample SDK\<close>

text \<open>
  An instance of the SDK parameter on which the shapes can be run, written after the
  declarations of \<open>aws-cdk-lib\<close> (\<open>aws-cognito\<close>). Every provider props interface
  extends \<open>UserPoolIdentityProviderProps\<close> (the required \<open>userPool\<close> and the optional
  \<open>attributeMapping\<close>) and adds its own properties, with the required ones required:
  \<open>clientId\<close> for Google; \<open>clientId\<close>, \<open>teamId\<close>, \<open>keyId\<close> for Apple; \<open>clientId\<close>,
  \<open>clientSecret\<close> for Amazon and Facebook; \<open>clientId\<close>, \<open>clientSecret\<close>, \<open>issuerUrl\<close> for
  OIDC; \<open>metadata\<close> for SAML. \<open>StandardAttributes\<close> is the interface of optional
  \<open>StandardAttribute\<close> settings. Classes and enumerations (\<open>SecretValue\<close>, \<open>OAuthScope\<close>,
  \<open>AccountRecovery\<close>, \<open>ProviderAttribute\<close>, \<open>IUserPool\<close>, the SAML metadata, the OIDC
  request method) and the storage strategy are the instances named after them.
\<close>

definition tRecord :: "ty \<Rightarrow> ty" where
  \<comment> \<open>an index signature \<open>{ [key: string]: T }\<close>\<close>
  "tRecord T = \<lparr>conf = (\<lambda>v. case v of VObj m \<Rightarrow> (\<forall>x \<in> ran m. accepts T x) | _ \<Rightarrow> False),
               known = UNIV\<rparr>"

definition cdk_StandardAttribute :: ty where
  "cdk_StandardAttribute = tObj [opt ''mutable'' tBoolean, opt ''required'' tBoolean]"

definition cdk_StandardAttributes :: ty where
  "cdk_StandardAttributes = tObj (map (\<lambda>k. opt k cdk_StandardAttribute)
     [''address'', ''birthdate'', ''email'', ''familyName'', ''gender'', ''givenName'',
      ''locale'', ''middleName'', ''fullname'', ''nickname'', ''phoneNumber'',
      ''profilePicture'', ''preferredUsername'', ''profilePage'', ''timezone'',
      ''lastUpdateTime'', ''website'', ''emailVerified'', ''phoneNumberVerified''])"

definition cdk_AttributeMapping :: ty where
  "cdk_AttributeMapping = tObj (map (\<lambda>k. opt k (tInst ''ProviderAttribute''))
     [''address'', ''birthdate'', ''email'', ''familyName'', ''gender'', ''givenName'',
      ''locale'', ''middleName'', ''fullname'', ''nickname'', ''phoneNumber'',
      ''profilePicture'', ''preferredUsername'', ''profilePage'', ''timezone'',
      ''lastUpdateTime'', ''website'']
     @ [opt ''custom'' (tRecord (tInst ''ProviderAttribute''))])"

definition cdk_OidcEndpoints :: ty where
  "cdk_OidcEndpoints = tObj
     [req ''authorization'' tString, req ''jwksUri'' tString, req ''token'' tString,
      req ''userInfo'' tString]"

definition cdk_UserPoolIdentityProviderProps :: "property list" where
  "cdk_UserPoolIdentityProviderProps =
     [req ''userPool'' (tInst ''IUserPool''), opt ''attributeMapping'' cdk_AttributeMapping]"

definition cdk :: sdk where
  "cdk = \<lparr>SecretValue = tInst ''SecretValue'',
          OAuthScope = tInst ''OAuthScope'',
          AccountRecovery = tInst ''AccountRecovery'',
          StandardAttributes = cdk_StandardAttributes,
          BackendOutputStorageStrategy_AuthOutput = tInst ''BackendOutputStorageStrategy'',
          UserPoolIdentityProviderGoogleProps =
            cdk_UserPoolIdentityProviderProps @
            [req ''clientId'' tString, opt ''clientSecret'' tString,
             opt ''clientSecretValue'' (tInst ''SecretValue''), opt ''scopes'' (tArray tString)],
          UserPoolIdentityProviderAppleProps =
            cdk_UserPoolIdentityProviderProps @
            [req ''clientId'' tString, req ''teamId'' tString, req ''keyId'' tString,
             opt ''privateKey'' tString, opt ''privateKeyValue'' (tInst ''SecretValue''),
             opt ''scopes'' (tArray tString)],
          UserPoolIdentityProviderAmazonProps =
            cdk_UserPoolIdentityProviderProps @
            [req ''clientId'' tString, req ''clientSecret'' tString,
             opt ''scopes'' (tArray tString)],
          UserPoolIdentityProviderFacebookProps =
            cdk_UserPoolIdentityProviderProps @
            [req ''clientId'' tString, req ''clientSecret'' tString,
             opt ''scopes'' (tArray tString), opt ''apiVersion'' tString],
          UserPoolIdentityProviderOidcProps =
            cdk_UserPoolIdentityProviderProps @
            [req ''clientId'' tString, req ''clientSecret'' tString, req ''issuerUrl'' tString,
             opt ''name'' tString, opt ''scopes'' (tArray tString),
             opt ''identifiers'' (tArray tString),
             opt ''attributeRequestMethod'' (tInst ''OidcAttributeRequestMethod''),
             opt ''endpoints'' cdk_OidcEndpoints],
          UserPoolIdentityProviderSamlProps =
            cdk_UserPoolIdentityProviderProps @
            [req ''metadata'' (tInst ''UserPoolIdentityProviderSamlMetadata''),
             opt ''name'' tString, opt ''identifiers'' (tArray tString),
             opt ''idpSignout'' tBoolean]\<rparr>"


section \<open>Reading the type constructors\<close>

lemma accepts_conf: "accepts T v \<Longrightarrow> conf T v"
  by (simp add: accepts_def)

lemma prop_ok_req [simp]:
  "prop_ok m (req k T) \<longleftrightarrow> (\<exists>x. m k = Some x \<and> accepts T x)"
  by (simp add: prop_ok_def req_def split: option.splits)

lemma prop_ok_opt [simp]:
  "prop_ok m (opt k T) \<longleftrightarrow> (\<forall>x. m k = Some x \<longrightarrow> x = VUndefined \<or> accepts T x)"
  by (simp add: prop_ok_def opt_def split: option.splits)

lemma pname_req [simp]: "pname (req k T) = k"
  by (simp add: req_def)

lemma pname_opt [simp]: "pname (opt k T) = k"
  by (simp add: opt_def)

lemma conf_tObj [simp]:
  "conf (tObj ps) v \<longleftrightarrow> (\<exists>m. v = VObj m \<and> list_all (prop_ok m) ps)"
  by (cases v) (simp_all add: tObj_def)

lemma known_tObj [simp]: "known (tObj ps) = set (map pname ps)"
  by (simp add: tObj_def)

lemma conf_tUnion [simp]: "conf (tUnion A B) v \<longleftrightarrow> conf A v \<or> conf B v"
  by (simp add: tUnion_def)

lemma known_tUnion [simp]: "known (tUnion A B) = known A \<union> known B"
  by (simp add: tUnion_def)

lemma conf_tInter [simp]: "conf (tInter A B) v \<longleftrightarrow> conf A v \<and> conf B v"
  by (simp add: tInter_def)

lemma known_tInter [simp]: "known (tInter A B) = known A \<union> known B"
  by (simp add: tInter_def)

lemma conf_tTrue [simp]: "conf tTrue v \<longleftrightarrow> v = VBool True"
  by (simp add: tTrue_def)

lemma known_tTrue [simp]: "known tTrue = {}"
  by (simp add: tTrue_def)

lemma conf_tBoolean [simp]: "conf tBoolean v \<longleftrightarrow> (\<exists>b. v = VBool b)"
  by (cases v) (simp_all add: tBoolean_def)

lemma known_tBoolean [simp]: "known tBoolean = {}"
  by (simp add: tBoolean_def)

lemma conf_tString [simp]: "conf tString v \<longleftrightarrow> (\<exists>s. v = VStr s)"
  by (cases v) (simp_all add: tString_def)

lemma known_tString [simp]: "known tString = {}"
  by (simp add: tString_def)

lemma conf_tLit [simp]: "conf (tLit s) v \<longleftrightarrow> v = VStr s"
  by (simp add: tLit_def)

lemma known_tLit [simp]: "known (tLit s) = {}"
  by (simp add: tLit_def)

lemma conf_tTemplate [simp]: "conf tTemplate v \<longleftrightarrow> (\<exists>f. v = VFun f)"
  by (cases v) (simp_all add: tTemplate_def)

lemma known_tTemplate [simp]: "known tTemplate = {}"
  by (simp add: tTemplate_def)

lemma conf_tArray [simp]:
  "conf (tArray T) v \<longleftrightarrow> (\<exists>xs. v = VArr xs \<and> list_all (accepts T) xs)"
  by (cases v) (simp_all add: tArray_def)

lemma known_tArray [simp]: "known (tArray T) = {}"
  by (simp add: tArray_def)

lemma conf_tInst [simp]: "conf (tInst c) v \<longleftrightarrow> v = VInst c"
  by (simp add: tInst_def)

lemma known_tInst [simp]: "known (tInst c) = {}"
  by (simp add: tInst_def)

lemma accepts_VObj [simp]: "accepts T (VObj m) \<longleftrightarrow> conf T (VObj m) \<and> dom m \<subseteq> known T"
  by (simp add: accepts_def)

lemma accepts_VBool [simp]: "accepts T (VBool b) \<longleftrightarrow> conf T (VBool b)"
  by (simp add: accepts_def)

lemma accepts_VFun [simp]: "accepts T (VFun f) \<longleftrightarrow> conf T (VFun f)"
  by (simp add: accepts_def)

lemma accepts_VStr [simp]: "accepts T (VStr s) \<longleftrightarrow> conf T (VStr s)"
  by (simp add: accepts_def)

lemma accepts_VInst [simp]: "accepts T (VInst c) \<longleftrightarrow> conf T (VInst c)"
  by (simp add: accepts_def)

lemma accepts_VArr [simp]: "accepts T (VArr xs) \<longleftrightarrow> conf T (VArr xs)"
  by (simp add: accepts_def)

lemma accepts_VUndefined [simp]: "accepts T VUndefined \<longleftrightarrow> conf T VUndefined"
  by (simp add: accepts_def)

lemma accepts_VNull [simp]: "accepts T VNull \<longleftrightarrow> conf T VNull"
  by (simp add: accepts_def)

lemma accepts_VNum [simp]: "accepts T (VNum n) \<longleftrightarrow> conf T (VNum n)"
  by (simp add: accepts_def)

lemma accepts_tTrue [simp]: "accepts tTrue v \<longleftrightarrow> v = VBool True"
  by (auto simp: accepts_def)

lemma accepts_tBoolean [simp]: "accepts tBoolean v \<longleftrightarrow> (\<exists>b. v = VBool b)"
  by (auto simp: accepts_def)

lemma accepts_tString [simp]: "accepts tString v \<longleftrightarrow> (\<exists>s. v = VStr s)"
  by (auto simp: accepts_def)

lemma accepts_tLit [simp]: "accepts (tLit s) v \<longleftrightarrow> v = VStr s"
  by (auto simp: accepts_def)

lemma accepts_tTemplate [simp]: "accepts tTemplate v \<longleftrightarrow> (\<exists>f. v = VFun f)"
  by (auto simp: accepts_def)

lemma accepts_tInst [simp]: "accepts (tInst c) v \<longleftrightarrow> v = VInst c"
  by (auto simp: accepts_def)

lemma accepts_tArray [simp]:
  "accepts (tArray T) v \<longleftrightarrow> (\<exists>xs. v = VArr xs \<and> list_all (accepts T) xs)"
  by (auto simp: accepts_def)

lemma accepts_tObj:
  "accepts (tObj ps) v \<longleftrightarrow>
     (\<exists>m. v = VObj m \<and> list_all (prop_ok m) ps \<and> dom m \<subseteq> set (map pname ps))"
  by (cases v) (simp_all add: accepts_def)

lemma accepts_tUnion_same:
  "known A = known B \<Longrightarrow> accepts (tUnion A B) v \<longleftrightarrow> accepts A v \<or> accepts B v"
  by (cases v) (auto simp: accepts_def)

lemma accepts_tUnion_prim:
  "known A = {} \<Longrightarrow> (\<And>m. \<not> conf A (VObj m)) \<Longrightarrow>
     accepts (tUnion A B) v \<longleftrightarrow> accepts A v \<or> accepts B v"
  by (cases v) (auto simp: accepts_def)

lemma accepts_EmailLoginSettings:
  "accepts EmailLoginSettings v \<longleftrightarrow>
      (\<exists>m. v = VObj m \<and>
         dom m \<subseteq> {''verificationEmailStyle'', ''verificationEmailBody'', ''verificationEmailSubject''} \<and>
         (\<forall>x. m ''verificationEmailStyle'' = Some x \<longrightarrow>
              x = VUndefined \<or> x = VStr ''CODE'' \<or> x = VStr ''LINK'') \<and>
         (\<forall>x. m ''verificationEmailBody'' = Some x \<longrightarrow> x = VUndefined \<or> (\<exists>f. x = VFun f)) \<and>
         (\<forall>x. m ''verificationEmailSubject'' = Some x \<longrightarrow> x = VUndefined \<or> (\<exists>s. x = VStr s)))"
  unfolding EmailLoginSettings_def accepts_tObj
  by (simp add: accepts_tUnion_same conj_commute conj_left_commute)

lemma accepts_EmailLogin:
  "accepts EmailLogin v \<longleftrightarrow> v = VBool True \<or> accepts EmailLoginSettings v"
  unfolding EmailLogin_def EmailLoginSettings_def
  by (rule trans [OF accepts_tUnion_prim]) simp_all

lemma accepts_PhoneNumberLogin:
  "accepts PhoneNumberLogin v \<longleftrightarrow>
      v = VBool True \<or>
      (\<exists>m. v = VObj m \<and> dom m \<subseteq> {''verificationMessage''} \<and>
         (\<forall>x. m ''verificationMessage'' = Some x \<longrightarrow> x = VUndefined \<or> (\<exists>f. x = VFun f)))"
  unfolding PhoneNumberLogin_def
  by (rule trans [OF accepts_tUnion_prim]) (simp_all add: accepts_tObj conj_commute conj_left_commute)


lemma accepts_BasicLoginOptions:
  "accepts BasicLoginOptions v \<longleftrightarrow>
     (\<exists>m. v = VObj m \<and> dom m \<subseteq> {''email'', ''phone''} \<and>
        ((\<exists>e. m ''email'' = Some e \<and> accepts EmailLogin e) \<and>
         (\<forall>p. m ''phone'' = Some p \<longrightarrow> p = VUndefined \<or> accepts PhoneNumberLogin p)
         \<or>
         (\<forall>e. m ''email'' = Some e \<longrightarrow> e = VUndefined \<or> accepts EmailLogin e) \<and>
         (\<exists>p. m ''phone'' = Some p \<and> accepts PhoneNumberLogin p)))"
  by (cases v) (auto simp: BasicLoginOptions_def accepts_def)

lemma accepts_sms:
  "accepts (tUnion tBoolean (tObj [req ''smsMessage'' tTemplate])) x \<longleftrightarrow>
     (\<exists>b. x = VBool b) \<or>
     (\<exists>s f. x = VObj s \<and> s ''smsMessage'' = Some (VFun f) \<and> dom s \<subseteq> {''smsMessage''})"
  by (rule trans [OF accepts_tUnion_prim]) (auto simp: accepts_tObj)

lemma conf_MFASettings:
  "conf MFASettings v \<longleftrightarrow>
     (\<exists>m. v = VObj m \<and> (\<exists>b. m ''totp'' = Some (VBool b)) \<and>
        ((\<exists>b. m ''sms'' = Some (VBool b)) \<or>
         (\<exists>s f. m ''sms'' = Some (VObj s) \<and> s ''smsMessage'' = Some (VFun f) \<and>
                dom s \<subseteq> {''smsMessage''})))"
  unfolding MFASettings_def by (auto simp: accepts_sms)

lemma accepts_enforcementType:
  "accepts (tUnion (tLit ''OFF'') (tUnion (tLit ''OPTIONAL'') (tLit ''REQUIRED''))) x \<longleftrightarrow>
     x = VStr ''OFF'' \<or> x = VStr ''OPTIONAL'' \<or> x = VStr ''REQUIRED''"
  by (simp add: accepts_tUnion_same)


section \<open>The login configuration\<close>

text \<open>
  C1 (as stated, refuted). The claim places the rejection of a configuration with neither
  login method outside the declared shapes, so \<open>BasicLoginOptions\<close> would admit the empty
  object. It does not: each alternative of the union requires one of the two properties.
\<close>

theorem BasicLoginOptions_empty_rejected:
  "\<not> accepts BasicLoginOptions (VObj Map.empty)"
  by (simp add: BasicLoginOptions_def)

text \<open>
  C1 (amended). Each of \<open>email\<close> and \<open>phone\<close> may be left out when the other is given: an
  object with only an accepted \<open>email\<close>, or only an accepted \<open>phone\<close>, is a value of
  \<open>BasicLoginOptions\<close>. An object with neither is rejected by the shape itself.
\<close>

theorem BasicLoginOptions_one_method_required:
  "(accepts EmailLogin e \<longrightarrow> accepts BasicLoginOptions (VObj [''email'' \<mapsto> e])) \<and>
   (accepts PhoneNumberLogin p \<longrightarrow> accepts BasicLoginOptions (VObj [''phone'' \<mapsto> p])) \<and>
   (m ''email'' = None \<and> m ''phone'' = None \<longrightarrow> \<not> accepts BasicLoginOptions (VObj m))"
  by (simp add: BasicLoginOptions_def)

theorem BasicLoginOptions_one_method_required_witness:
  "accepts EmailLogin (VBool True) \<and>
   accepts BasicLoginOptions (VObj [''email'' \<mapsto> VBool True]) \<and>
   accepts PhoneNumberLogin (VBool True) \<and>
   accepts BasicLoginOptions (VObj [''phone'' \<mapsto> VBool True]) \<and>
   \<not> accepts BasicLoginOptions (VObj Map.empty)"
  using BasicLoginOptions_one_method_required [of "VBool True" "VBool True" Map.empty]
  by (simp add: EmailLogin_def PhoneNumberLogin_def)

text \<open>
  C2. Every value of \<open>BasicLoginOptions\<close> is an object that defines \<open>email\<close> (with an
  accepted email setting) or \<open>phone\<close> (with an accepted phone setting). The statement is
  about every conforming value, so it holds of every accepted literal as well.
\<close>

theorem BasicLoginOptions_defines_email_or_phone:
  "conf BasicLoginOptions v \<Longrightarrow>
     \<exists>m. v = VObj m \<and>
       ((\<exists>e. m ''email'' = Some e \<and> accepts EmailLogin e) \<or>
        (\<exists>p. m ''phone'' = Some p \<and> accepts PhoneNumberLogin p))"
  by (auto simp: BasicLoginOptions_def)

theorem BasicLoginOptions_defines_email_or_phone_witness:
  "conf BasicLoginOptions (VObj [''phone'' \<mapsto> VBool True]) \<and>
   (\<exists>p. [''phone'' \<mapsto> VBool True] ''phone'' = Some p \<and> accepts PhoneNumberLogin p)"
proof -
  have h: "conf BasicLoginOptions (VObj [''phone'' \<mapsto> VBool True])"
    by (simp add: BasicLoginOptions_def PhoneNumberLogin_def)
  from BasicLoginOptions_defines_email_or_phone [OF h] show ?thesis
    using h by simp
qed

text \<open>
  C6 (as stated, refuted). The boolean \<open>false\<close> is not an admissible value of \<open>EmailLogin\<close>
  or of \<open>PhoneNumberLogin\<close>: both are declared as \<open>true | settings\<close>.
\<close>

theorem login_false_rejected:
  "\<not> accepts EmailLogin (VBool False) \<and> \<not> accepts PhoneNumberLogin (VBool False)"
  by (simp add: EmailLogin_def PhoneNumberLogin_def EmailLoginSettings_def)

text \<open>
  C6 (amended). Each of \<open>EmailLogin\<close> and \<open>PhoneNumberLogin\<close> is either the literal \<open>true\<close>
  or a settings object customizing verification message templates (for email: style,
  body and subject; for phone: the message); a boolean \<open>b\<close> is admissible exactly when
  it is \<open>true\<close>.
\<close>

theorem login_true_or_settings:
  "(accepts EmailLogin v \<longleftrightarrow>
      v = VBool True \<or>
      (\<exists>m. v = VObj m \<and>
         dom m \<subseteq> {''verificationEmailStyle'', ''verificationEmailBody'',
                  ''verificationEmailSubject''} \<and>
         (\<forall>x. m ''verificationEmailStyle'' = Some x \<longrightarrow>
              x = VUndefined \<or> x = VStr ''CODE'' \<or> x = VStr ''LINK'') \<and>
         (\<forall>x. m ''verificationEmailBody'' = Some x \<longrightarrow> x = VUndefined \<or> (\<exists>f. x = VFun f)) \<and>
         (\<forall>x. m ''verificationEmailSubject'' = Some x \<longrightarrow>
              x = VUndefined \<or> (\<exists>s. x = VStr s)))) \<and>
   (accepts PhoneNumberLogin v \<longleftrightarrow>
      v = VBool True \<or>
      (\<exists>m. v = VObj m \<and> dom m \<subseteq> {''verificationMessage''} \<and>
         (\<forall>x. m ''verificationMessage'' = Some x \<longrightarrow> x = VUndefined \<or> (\<exists>f. x = VFun f)))) \<and>
   (accepts EmailLogin (VBool b) \<longleftrightarrow> b) \<and>
   (accepts PhoneNumberLogin (VBool b) \<longleftrightarrow> b)"
proof (intro conjI)
  show "accepts EmailLogin (VBool b) \<longleftrightarrow> b"
    by (simp add: EmailLogin_def EmailLoginSettings_def)
  show "accepts PhoneNumberLogin (VBool b) \<longleftrightarrow> b"
    by (simp add: PhoneNumberLogin_def)
qed (simp_all only: accepts_EmailLogin accepts_EmailLoginSettings accepts_PhoneNumberLogin)

theorem login_true_or_settings_witness:
  "accepts EmailLogin
     (VObj [''verificationEmailStyle'' \<mapsto> VStr ''LINK'',
            ''verificationEmailSubject'' \<mapsto> VStr ''Welcome'']) \<and>
   accepts PhoneNumberLogin
     (VObj [''verificationMessage'' \<mapsto> VFun (\<lambda>code. ''Your code is '' @ code)]) \<and>
   accepts EmailLogin (VBool True) \<and> accepts PhoneNumberLogin (VBool True)"
  using
    login_true_or_settings [of "VObj [''verificationEmailStyle'' \<mapsto> VStr ''LINK'',
                                      ''verificationEmailSubject'' \<mapsto> VStr ''Welcome'']" True]
    login_true_or_settings [of "VObj [''verificationMessage'' \<mapsto>
                                        VFun (\<lambda>code. ''Your code is '' @ code)]" True]
  by simp


section \<open>The multi-factor configuration\<close>

text \<open>
  C4. A value of \<open>MFA\<close> is an object with no property besides \<open>enforcementType\<close>, \<open>totp\<close>
  and \<open>sms\<close>, whose \<open>enforcementType\<close> is one of the three strings \<open>OFF\<close>, \<open>OPTIONAL\<close>,
  \<open>REQUIRED\<close>, whose \<open>totp\<close> is a boolean, and whose \<open>sms\<close> is a boolean or an object
  carrying the message template \<open>smsMessage\<close>.
\<close>

theorem MFA_shape:
  "accepts MFA v \<longleftrightarrow>
     (\<exists>m. v = VObj m \<and> dom m \<subseteq> {''enforcementType'', ''totp'', ''sms''} \<and>
        (m ''enforcementType'' = Some (VStr ''OFF'') \<or>
         m ''enforcementType'' = Some (VStr ''OPTIONAL'') \<or>
         m ''enforcementType'' = Some (VStr ''REQUIRED'')) \<and>
        (\<exists>b. m ''totp'' = Some (VBool b)) \<and>
        ((\<exists>b. m ''sms'' = Some (VBool b)) \<or>
         (\<exists>s f. m ''sms'' = Some (VObj s) \<and> s ''smsMessage'' = Some (VFun f) \<and>
                dom s \<subseteq> {''smsMessage''})))"
proof (cases v)
  case (VObj m)
  have k: "known MFA = {''enforcementType'', ''totp'', ''sms''}"
    by (auto simp: MFA_def MFASettings_def)
  have c: "conf MFA v \<longleftrightarrow>
      (m ''enforcementType'' = Some (VStr ''OFF'') \<or>
       m ''enforcementType'' = Some (VStr ''OPTIONAL'') \<or>
       m ''enforcementType'' = Some (VStr ''REQUIRED'')) \<and> conf MFASettings v"
    using VObj by (auto simp: MFA_def accepts_enforcementType)
  show ?thesis
    unfolding accepts_def c k conf_MFASettings using VObj by auto
qed (simp_all add: accepts_def MFA_def)

theorem MFA_shape_witness:
  "accepts MFA
     (VObj [''enforcementType'' \<mapsto> VStr ''OPTIONAL'', ''totp'' \<mapsto> VBool True,
            ''sms'' \<mapsto> VObj [''smsMessage'' \<mapsto> VFun (\<lambda>code. ''Code: '' @ code)]]) \<and>
   \<not> accepts MFA
     (VObj [''enforcementType'' \<mapsto> VStr ''ALWAYS'', ''totp'' \<mapsto> VBool True,
            ''sms'' \<mapsto> VBool False])"
  using
    MFA_shape [of "VObj [''enforcementType'' \<mapsto> VStr ''OPTIONAL'', ''totp'' \<mapsto> VBool True,
            ''sms'' \<mapsto> VObj [''smsMessage'' \<mapsto> VFun (\<lambda>code. ''Code: '' @ code)]]"]
    MFA_shape [of "VObj [''enforcementType'' \<mapsto> VStr ''ALWAYS'', ''totp'' \<mapsto> VBool True,
            ''sms'' \<mapsto> VBool False]"]
  by auto

text \<open>
  C9. In a value of \<open>MFASettings\<close> whose \<open>sms\<close> is an object rather than a boolean, that
  object holds a message template under \<open>smsMessage\<close>: no settings object without it
  conforms.
\<close>

theorem MFASettings_sms_object_has_template:
  "conf MFASettings (VObj m) \<Longrightarrow> m ''sms'' = Some (VObj s) \<Longrightarrow>
     \<exists>f. s ''smsMessage'' = Some (VFun f)"
  by (auto simp: conf_MFASettings)

theorem MFASettings_sms_object_has_template_witness:
  "conf MFASettings
     (VObj [''totp'' \<mapsto> VBool False,
            ''sms'' \<mapsto> VObj [''smsMessage'' \<mapsto> VFun (\<lambda>code. ''Code: '' @ code)]]) \<and>
   (\<exists>f. [''smsMessage'' \<mapsto> VFun (\<lambda>code. ''Code: '' @ code)] ''smsMessage'' = Some (VFun f))"
proof -
  let ?s = "[''smsMessage'' \<mapsto> VFun (\<lambda>code. ''Code: '' @ code)]"
  let ?m = "[''totp'' \<mapsto> VBool False, ''sms'' \<mapsto> VObj ?s]"
  have h: "conf MFASettings (VObj ?m)"
    by (auto simp: conf_MFASettings)
  have g: "?m ''sms'' = Some (VObj ?s)"
    by simp
  from MFASettings_sms_object_has_template [OF h g] h show ?thesis
    by simp
qed


section \<open>The re-exporting module\<close>

text \<open>
  C8. The second file holds nothing but re-export statements: it has no statement of its
  own (no type, value or logic), and it re-exports exactly the two submodules
  \<open>./conversation/index.js\<close> and \<open>./conversation/lambda/index.js\<close>.
\<close>

theorem part_000_only_reexports:
  "own_statements part_000 = [] \<and>
   reexported part_000 = [''./conversation/index.js'', ''./conversation/lambda/index.js'']"
  by (simp add: part_000_def)


section \<open>Leaving a property out\<close>

lemma list_all_prop_ok_drop:
  "list_all (prop_ok m) ps \<Longrightarrow> (\<forall>p\<in>set ps. pname p = k \<longrightarrow> optional p) \<Longrightarrow>
     list_all (prop_ok (m(k := None))) ps"
  by (auto simp: list_all_iff prop_ok_def split: option.splits)

lemma conf_tObj_drop:
  "conf (tObj ps) v \<Longrightarrow> (\<forall>p\<in>set ps. pname p = k \<longrightarrow> optional p) \<Longrightarrow>
     conf (tObj ps) (drop_key k v)"
  by (auto simp: drop_key_def list_all_prop_ok_drop)

lemma accepts_drop:
  "accepts T v \<Longrightarrow> conf T (drop_key k v) \<Longrightarrow> accepts T (drop_key k v)"
  by (cases v) (auto simp: accepts_def drop_key_def)

lemma accepts_tObj_drop:
  "accepts (tObj ps) v \<Longrightarrow> (\<forall>p\<in>set ps. pname p = k \<longrightarrow> optional p) \<Longrightarrow>
     accepts (tObj ps) (drop_key k v)"
proof -
  assume a: "accepts (tObj ps) v" and o: "\<forall>p\<in>set ps. pname p = k \<longrightarrow> optional p"
  from a have "conf (tObj ps) v" by (rule accepts_conf)
  then have "conf (tObj ps) (drop_key k v)" using o by (rule conf_tObj_drop)
  with a show ?thesis by (rule accepts_drop)
qed

lemma dom_subsetD: "dom m \<subseteq> S \<Longrightarrow> m x = Some y \<Longrightarrow> x \<in> S"
  by (auto simp: dom_def)

lemma dom_drop_subset: "dom m \<subseteq> S \<Longrightarrow> dom (m(k := None)) \<subseteq> S"
  by auto

lemma accepts_tUnion_prim_drop:
  assumes "known A = {}" and "\<And>m. \<not> conf A (VObj m)"
    and "accepts B v \<Longrightarrow> accepts B (drop_key k v)"
    and "accepts (tUnion A B) v"
  shows "accepts (tUnion A B) (drop_key k v)"
proof -
  from assms(4) have "accepts A v \<or> accepts B v"
    by (simp only: accepts_tUnion_prim [OF assms(1,2)])
  then show ?thesis
  proof
    assume a: "accepts A v"
    then have "drop_key k v = v"
      using assms(2) by (cases v) (auto simp: drop_key_def accepts_def)
    with assms(4) show ?thesis by simp
  next
    assume "accepts B v"
    then have "accepts B (drop_key k v)" by (rule assms(3))
    then show ?thesis
      by (simp add: accepts_tUnion_prim [OF assms(1,2)])
  qed
qed

lemma optional_opt [simp]: "optional (opt k T)"
  by (simp add: opt_def)

lemma optional_req [simp]: "\<not> optional (req k T)"
  by (simp add: req_def)

lemma drop_key_VBool [simp]: "drop_key k (VBool b) = VBool b"
  by (simp add: drop_key_def)

lemma drop_key_VObj [simp]: "drop_key k (VObj m) = VObj (m(k := None))"
  by (simp add: drop_key_def)

lemma EmailLoginSettings_drop:
  "accepts EmailLoginSettings v \<Longrightarrow> accepts EmailLoginSettings (drop_key k v)"
  unfolding EmailLoginSettings_def by (rule accepts_tObj_drop) simp_all

lemma EmailLogin_drop:
  "accepts EmailLogin v \<Longrightarrow> accepts EmailLogin (drop_key k v)"
  unfolding EmailLogin_def
  by (rule accepts_tUnion_prim_drop) (simp_all add: EmailLoginSettings_drop)

lemma PhoneNumberLogin_drop:
  "accepts PhoneNumberLogin v \<Longrightarrow> accepts PhoneNumberLogin (drop_key k v)"
  unfolding PhoneNumberLogin_def
  by (rule accepts_tUnion_prim_drop) (simp_all add: accepts_tObj_drop)

lemma ExternalProviderOptions_drop:
  "accepts (ExternalProviderOptions s) v \<Longrightarrow> accepts (ExternalProviderOptions s) (drop_key k v)"
  unfolding ExternalProviderOptions_def by (rule accepts_tObj_drop) simp_all

lemma ExternalProviderProps_drop:
  "accepts (ExternalProviderProps s) v \<Longrightarrow> accepts (ExternalProviderProps s) (drop_key k v)"
  unfolding ExternalProviderProps_def by (rule accepts_tObj_drop) simp_all

lemma AuthProps_drop:
  "accepts (AuthProps s) v \<Longrightarrow> k \<noteq> ''loginWith'' \<Longrightarrow> accepts (AuthProps s) (drop_key k v)"
  unfolding AuthProps_def by (rule accepts_tObj_drop) auto

lemma pname_Omit: "set (map pname (Omit ps ks)) = pname ` set ps - set ks"
  by (auto simp: Omit_def)

lemma GoogleProviderProps_drop:
  "accepts (GoogleProviderProps s) v \<Longrightarrow>
     accepts (GoogleProviderProps s) (drop_key ''clientSecret'' v)"
proof (rule accepts_drop)
  assume a: "accepts (GoogleProviderProps s) v"
  then show "accepts (GoogleProviderProps s) v" .
  from a have c: "conf (GoogleProviderProps s) v" by (rule accepts_conf)
  show "conf (GoogleProviderProps s) (drop_key ''clientSecret'' v)"
    using c unfolding GoogleProviderProps_def conf_tInter
    by (auto intro!: conf_tObj_drop simp: Omit_def simp del: conf_tObj)
qed

lemma BasicLoginOptions_drop_email:
  "accepts BasicLoginOptions (VObj m) \<Longrightarrow> m ''phone'' = Some p \<Longrightarrow> accepts PhoneNumberLogin p \<Longrightarrow>
     accepts BasicLoginOptions (drop_key ''email'' (VObj m))"
  unfolding drop_key_VObj accepts_BasicLoginOptions
  by (auto dest: dom_subsetD)

lemma BasicLoginOptions_drop_phone:
  "accepts BasicLoginOptions (VObj m) \<Longrightarrow> m ''email'' = Some e \<Longrightarrow> accepts EmailLogin e \<Longrightarrow>
     accepts BasicLoginOptions (drop_key ''phone'' (VObj m))"
  unfolding drop_key_VObj accepts_BasicLoginOptions
  by (auto dest: dom_subsetD)

lemma required_missing:
  "(m ''loginWith'' = None \<longrightarrow> \<not> accepts (AuthProps s) (VObj m)) \<and>
   (m ''enforcementType'' = None \<or> m ''totp'' = None \<or> m ''sms'' = None \<longrightarrow> \<not> accepts MFA (VObj m)) \<and>
   (m ''totp'' = None \<or> m ''sms'' = None \<longrightarrow> \<not> accepts MFASettings (VObj m)) \<and>
   (m ''smsMessage'' = None \<longrightarrow> \<not> accepts (tObj [req ''smsMessage'' tTemplate]) (VObj m))"
  by (auto simp: AuthProps_def MFA_def MFASettings_def)


lemma accepts_loginWith:
  "accepts (tInter BasicLoginOptions (ExternalProviderProps s)) l \<longleftrightarrow>
     (\<exists>m. l = VObj m \<and>
        ((\<exists>e. m ''email'' = Some e \<and> accepts EmailLogin e) \<and>
         (\<forall>p. m ''phone'' = Some p \<longrightarrow> p = VUndefined \<or> accepts PhoneNumberLogin p)
         \<or>
         (\<forall>e. m ''email'' = Some e \<longrightarrow> e = VUndefined \<or> accepts EmailLogin e) \<and>
         (\<exists>p. m ''phone'' = Some p \<and> accepts PhoneNumberLogin p)) \<and>
        (\<forall>x. m ''externalProviders'' = Some x \<longrightarrow>
             x = VUndefined \<or> accepts (ExternalProviderOptions s) x) \<and>
        dom m \<subseteq> {''email'', ''phone'', ''externalProviders''})"
  by (cases l) (auto simp: accepts_def BasicLoginOptions_def ExternalProviderProps_def)


section \<open>Reading the provider props\<close>

lemma accepts_unknown_absent: "accepts T (VObj b) \<Longrightarrow> k \<notin> known T \<Longrightarrow> b k = None"
  unfolding accepts_VObj by (auto simp: dom_def)

lemma known_Omit: "known (tObj (Omit ps ks)) = pname ` set ps - set ks"
  unfolding known_tObj by (rule pname_Omit)

lemma known_GoogleProviderProps:
  "known (GoogleProviderProps s) =
     (pname ` set (UserPoolIdentityProviderGoogleProps s)
        - {''userPool'', ''clientSecretValue'', ''clientSecret''}) \<union> {''clientSecret''}"
  unfolding GoogleProviderProps_def known_tInter known_Omit by simp

lemma userPool_not_known:
  "T \<in> {GoogleProviderProps s, AppleProviderProps s, AmazonProviderProps s,
         FacebookProviderProps s, OidcProviderProps s, SamlProviderProps s} \<Longrightarrow>
     ''userPool'' \<notin> known T"
proof -
  have g: "''userPool'' \<notin> known (GoogleProviderProps s)"
    unfolding known_GoogleProviderProps by simp
  have a: "''userPool'' \<notin> known (AppleProviderProps s)"
    unfolding AppleProviderProps_def known_Omit by simp
  have z: "''userPool'' \<notin> known (AmazonProviderProps s)"
    unfolding AmazonProviderProps_def known_Omit by simp
  have f: "''userPool'' \<notin> known (FacebookProviderProps s)"
    unfolding FacebookProviderProps_def known_Omit by simp
  have oi: "''userPool'' \<notin> known (OidcProviderProps s)"
    unfolding OidcProviderProps_def known_Omit by simp
  have sa: "''userPool'' \<notin> known (SamlProviderProps s)"
    unfolding SamlProviderProps_def known_Omit by simp
  assume "T \<in> {GoogleProviderProps s, AppleProviderProps s, AmazonProviderProps s,
         FacebookProviderProps s, OidcProviderProps s, SamlProviderProps s}"
  then show ?thesis using g a z f oi sa by blast
qed


lemma bundle_absent:
  assumes "\<forall>x. m k = Some x \<longrightarrow> x = VUndefined \<or> accepts T x"
    and "m k = Some (VObj c)" and "j \<notin> known T"
  shows "c j = None"
proof -
  from assms(1,2) have "accepts T (VObj c)" by blast
  then show ?thesis using assms(3) by (rule accepts_unknown_absent)
qed

lemma accepts_ExternalProviderOptions:
  "accepts (ExternalProviderOptions s) v \<longleftrightarrow>
     (\<exists>m. v = VObj m \<and>
        (\<forall>x. m ''google'' = Some x \<longrightarrow> x = VUndefined \<or> accepts (GoogleProviderProps s) x) \<and>
        (\<forall>x. m ''facebook'' = Some x \<longrightarrow>
             x = VUndefined \<or> accepts (FacebookProviderProps s) x) \<and>
        (\<forall>x. m ''loginWithAmazon'' = Some x \<longrightarrow>
             x = VUndefined \<or> accepts (AmazonProviderProps s) x) \<and>
        (\<forall>x. m ''signInWithApple'' = Some x \<longrightarrow>
             x = VUndefined \<or> accepts (AppleProviderProps s) x) \<and>
        (\<forall>x. m ''oidc'' = Some x \<longrightarrow> x = VUndefined \<or> accepts (OidcProviderProps s) x) \<and>
        (\<forall>x. m ''saml'' = Some x \<longrightarrow> x = VUndefined \<or> accepts (SamlProviderProps s) x) \<and>
        (\<forall>x. m ''scopes'' = Some x \<longrightarrow>
             x = VUndefined \<or> (\<exists>xs. x = VArr xs \<and> list_all (accepts (OAuthScope s)) xs)) \<and>
        (\<forall>x. m ''callbackUrls'' = Some x \<longrightarrow>
             x = VUndefined \<or> (\<exists>xs. x = VArr xs \<and> list_all (accepts tString) xs)) \<and>
        (\<forall>x. m ''logoutUrls'' = Some x \<longrightarrow>
             x = VUndefined \<or> (\<exists>xs. x = VArr xs \<and> list_all (accepts tString) xs)) \<and>
        dom m \<subseteq> {''google'', ''facebook'', ''loginWithAmazon'', ''signInWithApple'', ''oidc'',
                 ''saml'', ''scopes'', ''callbackUrls'', ''logoutUrls''})"
  unfolding ExternalProviderOptions_def accepts_tObj by simp

lemma provider_bundle_without_userPool:
  assumes a: "accepts (ExternalProviderOptions s) (VObj m)"
    and k: "k \<in> {''google'', ''facebook'', ''loginWithAmazon'', ''signInWithApple'', ''oidc'',
                 ''saml''}"
    and c: "m k = Some (VObj c)"
  shows "c ''userPool'' = None"
proof -
  from a [unfolded accepts_ExternalProviderOptions] obtain m' where
    e: "VObj m = VObj m'" and
    g': "\<forall>x. m' ''google'' = Some x \<longrightarrow> x = VUndefined \<or> accepts (GoogleProviderProps s) x" and
    f': "\<forall>x. m' ''facebook'' = Some x \<longrightarrow> x = VUndefined \<or> accepts (FacebookProviderProps s) x" and
    z': "\<forall>x. m' ''loginWithAmazon'' = Some x \<longrightarrow>
      x = VUndefined \<or> accepts (AmazonProviderProps s) x" and
    ap': "\<forall>x. m' ''signInWithApple'' = Some x \<longrightarrow>
      x = VUndefined \<or> accepts (AppleProviderProps s) x" and
    oi': "\<forall>x. m' ''oidc'' = Some x \<longrightarrow> x = VUndefined \<or> accepts (OidcProviderProps s) x" and
    sa': "\<forall>x. m' ''saml'' = Some x \<longrightarrow> x = VUndefined \<or> accepts (SamlProviderProps s) x"
    by (elim exE conjE)
  from e have m: "m' = m" by (simp only: jsval.inject)
  note g = g' [unfolded m] and f = f' [unfolded m] and z = z' [unfolded m]
    and ap = ap' [unfolded m] and oi = oi' [unfolded m] and sa = sa' [unfolded m]
  from k show ?thesis
  proof (elim insertE emptyE)
    assume 1: "k = ''google''"
    have "''userPool'' \<notin> known (GoogleProviderProps s)"
      by (rule userPool_not_known [where s = s]) simp
    with g c [unfolded 1] show ?thesis by (rule bundle_absent)
  next
    assume 2: "k = ''facebook''"
    have "''userPool'' \<notin> known (FacebookProviderProps s)"
      by (rule userPool_not_known [where s = s]) simp
    with f c [unfolded 2] show ?thesis by (rule bundle_absent)
  next
    assume 3: "k = ''loginWithAmazon''"
    have "''userPool'' \<notin> known (AmazonProviderProps s)"
      by (rule userPool_not_known [where s = s]) simp
    with z c [unfolded 3] show ?thesis by (rule bundle_absent)
  next
    assume 4: "k = ''signInWithApple''"
    have "''userPool'' \<notin> known (AppleProviderProps s)"
      by (rule userPool_not_known [where s = s]) simp
    with ap c [unfolded 4] show ?thesis by (rule bundle_absent)
  next
    assume 5: "k = ''oidc''"
    have "''userPool'' \<notin> known (OidcProviderProps s)"
      by (rule userPool_not_known [where s = s]) simp
    with oi c [unfolded 5] show ?thesis by (rule bundle_absent)
  next
    assume 6: "k = ''saml''"
    have "''userPool'' \<notin> known (SamlProviderProps s)"
      by (rule userPool_not_known [where s = s]) simp
    with sa c [unfolded 6] show ?thesis by (rule bundle_absent)
  qed
qed

lemma conf_GoogleProviderProps:
  "conf (GoogleProviderProps s) (VObj g) \<longleftrightarrow>
      list_all (prop_ok g)
        (Omit (UserPoolIdentityProviderGoogleProps s)
              [''userPool'', ''clientSecretValue'', ''clientSecret'']) \<and>
      (\<forall>x. g ''clientSecret'' = Some x \<longrightarrow> x = VUndefined \<or> accepts (SecretValue s) x)"
proof -
  have a: "conf (tObj ps) (VObj g) \<longleftrightarrow> list_all (prop_ok g) ps" for ps
    by simp
  have b: "list_all (prop_ok g) [opt ''clientSecret'' (SecretValue s)] \<longleftrightarrow>
      (\<forall>x. g ''clientSecret'' = Some x \<longrightarrow> x = VUndefined \<or> accepts (SecretValue s) x)"
    by simp
  show ?thesis
    unfolding GoogleProviderProps_def conf_tInter a b ..
qed


lemma accepts_GoogleProviderProps:
  "accepts (GoogleProviderProps s) (VObj g) \<longleftrightarrow>
      list_all (prop_ok g)
        (Omit (UserPoolIdentityProviderGoogleProps s)
              [''userPool'', ''clientSecretValue'', ''clientSecret'']) \<and>
      (\<forall>x. g ''clientSecret'' = Some x \<longrightarrow> x = VUndefined \<or> accepts (SecretValue s) x) \<and>
      dom g \<subseteq> (pname ` set (UserPoolIdentityProviderGoogleProps s)
                 - {''userPool'', ''clientSecretValue'', ''clientSecret''}) \<union> {''clientSecret''}"
  by (simp only: accepts_VObj known_GoogleProviderProps conf_GoogleProviderProps conj_assoc)

lemma clientSecretValue_not_known: "''clientSecretValue'' \<notin> known (GoogleProviderProps s)"
  unfolding known_GoogleProviderProps by simp


section \<open>The external providers and the top-level shape\<close>

lemma ex_bool [simp]: "\<exists>b::bool. b" "\<exists>b::bool. \<not> b"
  by auto

text \<open>
  C10. Whatever the SDK props interfaces declare, none of the six per-provider props types
  declares \<open>userPool\<close>, so no accepted provider bundle (on its own, or under one of the six
  provider properties of \<open>ExternalProviderOptions\<close>) names a user pool. The Google props
  declare, besides the SDK's properties other than \<open>userPool\<close>, \<open>clientSecretValue\<close> and
  \<open>clientSecret\<close>, exactly one more property: \<open>clientSecret\<close>, which is optional (it may be
  left out of an accepted value) and holds a \<open>SecretValue\<close>; \<open>clientSecretValue\<close> cannot be
  given.
\<close>

theorem provider_props_omit_userPool:
  "(T \<in> {GoogleProviderProps s, AppleProviderProps s, AmazonProviderProps s,
          FacebookProviderProps s, OidcProviderProps s, SamlProviderProps s} \<longrightarrow>
      ''userPool'' \<notin> known T \<and> (accepts T (VObj b) \<longrightarrow> b ''userPool'' = None)) \<and>
   (accepts (ExternalProviderOptions s) (VObj m) \<and>
    k \<in> {''google'', ''facebook'', ''loginWithAmazon'', ''signInWithApple'', ''oidc'', ''saml''} \<and>
    m k = Some (VObj c) \<longrightarrow> c ''userPool'' = None) \<and>
   known (GoogleProviderProps s) =
     (pname ` set (UserPoolIdentityProviderGoogleProps s)
        - {''userPool'', ''clientSecretValue'', ''clientSecret''}) \<union> {''clientSecret''} \<and>
   (accepts (GoogleProviderProps s) (VObj g) \<longleftrightarrow>
      list_all (prop_ok g)
        (Omit (UserPoolIdentityProviderGoogleProps s)
              [''userPool'', ''clientSecretValue'', ''clientSecret'']) \<and>
      (\<forall>x. g ''clientSecret'' = Some x \<longrightarrow> x = VUndefined \<or> accepts (SecretValue s) x) \<and>
      dom g \<subseteq> (pname ` set (UserPoolIdentityProviderGoogleProps s)
                 - {''userPool'', ''clientSecretValue'', ''clientSecret''}) \<union> {''clientSecret''}) \<and>
   (accepts (GoogleProviderProps s) (VObj g) \<longrightarrow>
      g ''clientSecretValue'' = None \<and>
      accepts (GoogleProviderProps s) (VObj (g(''clientSecret'' := None))))"
proof (intro conjI impI)
  assume t: "T \<in> {GoogleProviderProps s, AppleProviderProps s, AmazonProviderProps s,
          FacebookProviderProps s, OidcProviderProps s, SamlProviderProps s}"
  then show u: "''userPool'' \<notin> known T" by (rule userPool_not_known)
  assume "accepts T (VObj b)"
  then show "b ''userPool'' = None" using u by (rule accepts_unknown_absent)
next
  assume h: "accepts (ExternalProviderOptions s) (VObj m) \<and>
    k \<in> {''google'', ''facebook'', ''loginWithAmazon'', ''signInWithApple'', ''oidc'', ''saml''} \<and>
    m k = Some (VObj c)"
  show "c ''userPool'' = None"
    by (rule provider_bundle_without_userPool
          [OF h [THEN conjunct1] h [THEN conjunct2, THEN conjunct1]
              h [THEN conjunct2, THEN conjunct2]])
next
  show "known (GoogleProviderProps s) =
     (pname ` set (UserPoolIdentityProviderGoogleProps s)
        - {''userPool'', ''clientSecretValue'', ''clientSecret''}) \<union> {''clientSecret''}"
    by (rule known_GoogleProviderProps)
next
  show "accepts (GoogleProviderProps s) (VObj g) \<longleftrightarrow>
      list_all (prop_ok g)
        (Omit (UserPoolIdentityProviderGoogleProps s)
              [''userPool'', ''clientSecretValue'', ''clientSecret'']) \<and>
      (\<forall>x. g ''clientSecret'' = Some x \<longrightarrow> x = VUndefined \<or> accepts (SecretValue s) x) \<and>
      dom g \<subseteq> (pname ` set (UserPoolIdentityProviderGoogleProps s)
                 - {''userPool'', ''clientSecretValue'', ''clientSecret''}) \<union> {''clientSecret''}"
    by (rule accepts_GoogleProviderProps)
next
  assume a: "accepts (GoogleProviderProps s) (VObj g)"
  from a clientSecretValue_not_known show "g ''clientSecretValue'' = None"
    by (rule accepts_unknown_absent)
  from GoogleProviderProps_drop [OF a]
  show "accepts (GoogleProviderProps s) (VObj (g(''clientSecret'' := None)))"
    by (simp only: drop_key_VObj)
qed

theorem provider_props_omit_userPool_witness:
  "accepts (GoogleProviderProps cdk)
     (VObj [''clientId'' \<mapsto> VStr ''id'', ''clientSecret'' \<mapsto> VInst ''SecretValue'']) \<and>
   accepts (ExternalProviderOptions cdk)
     (VObj [''google'' \<mapsto>
        VObj [''clientId'' \<mapsto> VStr ''id'', ''clientSecret'' \<mapsto> VInst ''SecretValue'']]) \<and>
   [''clientId'' \<mapsto> VStr ''id'', ''clientSecret'' \<mapsto> VInst ''SecretValue''] ''userPool'' = None \<and>
   accepts (GoogleProviderProps cdk)
     (VObj ([''clientId'' \<mapsto> VStr ''id'', ''clientSecret'' \<mapsto> VInst ''SecretValue'']
              (''clientSecret'' := None))) \<and>
   \<not> accepts (GoogleProviderProps cdk)
     (VObj [''clientId'' \<mapsto> VStr ''id'', ''userPool'' \<mapsto> VInst ''IUserPool''])"
proof -
  let ?G = "[''clientId'' \<mapsto> VStr ''id'', ''clientSecret'' \<mapsto> VInst ''SecretValue'']"
  let ?M = "[''google'' \<mapsto> VObj ?G]"
  let ?X = "[''clientId'' \<mapsto> VStr ''id'', ''userPool'' \<mapsto> VInst ''IUserPool'']"
  note t = provider_props_omit_userPool
             [of "GoogleProviderProps cdk" cdk ?X ?M "''google''" ?G ?G]
  have hg: "accepts (GoogleProviderProps cdk) (VObj ?G)"
    by (simp add: GoogleProviderProps_def cdk_def cdk_UserPoolIdentityProviderProps_def Omit_def)
  have hm: "accepts (ExternalProviderOptions cdk) (VObj ?M)"
    by (simp add: ExternalProviderOptions_def GoogleProviderProps_def cdk_def cdk_UserPoolIdentityProviderProps_def Omit_def)
  have mem: "GoogleProviderProps cdk \<in> {GoogleProviderProps cdk, AppleProviderProps cdk,
      AmazonProviderProps cdk, FacebookProviderProps cdk, OidcProviderProps cdk,
      SamlProviderProps cdk}"
    by simp
  have k: "''google'' \<in> {''google'', ''facebook'', ''loginWithAmazon'', ''signInWithApple'',
      ''oidc'', ''saml''}"
    by simp
  have l: "?M ''google'' = Some (VObj ?G)"
    by simp
  from t [THEN conjunct1, THEN mp, OF mem, THEN conjunct2]
  have nx: "accepts (GoogleProviderProps cdk) (VObj ?X) \<longrightarrow> ?X ''userPool'' = None" .
  have n: "\<not> accepts (GoogleProviderProps cdk) (VObj ?X)"
  proof
    assume "accepts (GoogleProviderProps cdk) (VObj ?X)"
    with nx have "?X ''userPool'' = None" by (rule mp)
    then show False by simp
  qed
  from t [THEN conjunct2, THEN conjunct1, THEN mp, OF conjI [OF hm conjI [OF k l]]]
  have u: "?G ''userPool'' = None" .
  from t [THEN conjunct2, THEN conjunct2, THEN conjunct2, THEN conjunct2, THEN mp, OF hg,
          THEN conjunct2]
  have d: "accepts (GoogleProviderProps cdk) (VObj (?G(''clientSecret'' := None)))" .
  show ?thesis
    by (intro conjI hg hm u d n)
qed

text \<open>
  C5 (as stated, refuted). The shape does not offer exactly five providers: whatever the
  SDK types are, the properties that \<open>ExternalProviderOptions\<close> declares besides the three
  shared lists \<open>scopes\<close>, \<open>callbackUrls\<close> and \<open>logoutUrls\<close> are six.
\<close>

theorem six_provider_slots:
  "\<forall>s. card (known (ExternalProviderOptions s)
              - {''scopes'', ''callbackUrls'', ''logoutUrls''}) = 6"
proof
  fix s
  have "known (ExternalProviderOptions s) - {''scopes'', ''callbackUrls'', ''logoutUrls''} =
      {''google'', ''facebook'', ''loginWithAmazon'', ''signInWithApple'', ''oidc'', ''saml''}"
    by (simp add: ExternalProviderOptions_def insert_Diff_if)
  then show "card (known (ExternalProviderOptions s)
                    - {''scopes'', ''callbackUrls'', ''logoutUrls''}) = 6"
    by simp
qed

text \<open>
  C3. \<open>AuthProps\<close> declares exactly the five properties \<open>loginWith\<close>, \<open>userAttributes\<close>,
  \<open>multifactor\<close>, \<open>accountRecovery\<close> and \<open>outputStorageStrategy\<close>. A value is accepted
  exactly when it is an object with no other property, whose \<open>loginWith\<close> is an accepted
  login configuration, and whose other four properties, where given, hold the
  user-attribute requirements, the multi-factor configuration, the account-recovery
  policy and the output-storage strategy. The login configuration is the basic login
  methods (\<open>email\<close>, \<open>phone\<close>, one of them required) together with the optional
  \<open>externalProviders\<close>, and nothing else.
\<close>

theorem AuthProps_shape:
  "known (AuthProps s) =
     {''loginWith'', ''userAttributes'', ''multifactor'', ''accountRecovery'',
      ''outputStorageStrategy''} \<and>
   (accepts (AuthProps s) v \<longleftrightarrow>
     (\<exists>m. v = VObj m \<and>
        (\<exists>l. m ''loginWith'' = Some l \<and>
             accepts (tInter BasicLoginOptions (ExternalProviderProps s)) l) \<and>
        (\<forall>x. m ''userAttributes'' = Some x \<longrightarrow>
             x = VUndefined \<or> accepts (StandardAttributes s) x) \<and>
        (\<forall>x. m ''multifactor'' = Some x \<longrightarrow> x = VUndefined \<or> accepts MFA x) \<and>
        (\<forall>x. m ''accountRecovery'' = Some x \<longrightarrow>
             x = VUndefined \<or> accepts (AccountRecovery s) x) \<and>
        (\<forall>x. m ''outputStorageStrategy'' = Some x \<longrightarrow>
             x = VUndefined \<or> accepts (BackendOutputStorageStrategy_AuthOutput s) x) \<and>
        dom m \<subseteq> {''loginWith'', ''userAttributes'', ''multifactor'', ''accountRecovery'',
                 ''outputStorageStrategy''})) \<and>
   (accepts (tInter BasicLoginOptions (ExternalProviderProps s)) l \<longleftrightarrow>
     (\<exists>m. l = VObj m \<and>
        ((\<exists>e. m ''email'' = Some e \<and> accepts EmailLogin e) \<and>
         (\<forall>p. m ''phone'' = Some p \<longrightarrow> p = VUndefined \<or> accepts PhoneNumberLogin p)
         \<or>
         (\<forall>e. m ''email'' = Some e \<longrightarrow> e = VUndefined \<or> accepts EmailLogin e) \<and>
         (\<exists>p. m ''phone'' = Some p \<and> accepts PhoneNumberLogin p)) \<and>
        (\<forall>x. m ''externalProviders'' = Some x \<longrightarrow>
             x = VUndefined \<or> accepts (ExternalProviderOptions s) x) \<and>
        dom m \<subseteq> {''email'', ''phone'', ''externalProviders''}))"
proof (intro conjI)
  show "known (AuthProps s) =
     {''loginWith'', ''userAttributes'', ''multifactor'', ''accountRecovery'',
      ''outputStorageStrategy''}"
    by (simp add: AuthProps_def)
  show "accepts (AuthProps s) v \<longleftrightarrow>
     (\<exists>m. v = VObj m \<and>
        (\<exists>l. m ''loginWith'' = Some l \<and>
             accepts (tInter BasicLoginOptions (ExternalProviderProps s)) l) \<and>
        (\<forall>x. m ''userAttributes'' = Some x \<longrightarrow>
             x = VUndefined \<or> accepts (StandardAttributes s) x) \<and>
        (\<forall>x. m ''multifactor'' = Some x \<longrightarrow> x = VUndefined \<or> accepts MFA x) \<and>
        (\<forall>x. m ''accountRecovery'' = Some x \<longrightarrow>
             x = VUndefined \<or> accepts (AccountRecovery s) x) \<and>
        (\<forall>x. m ''outputStorageStrategy'' = Some x \<longrightarrow>
             x = VUndefined \<or> accepts (BackendOutputStorageStrategy_AuthOutput s) x) \<and>
        dom m \<subseteq> {''loginWith'', ''userAttributes'', ''multifactor'', ''accountRecovery'',
                 ''outputStorageStrategy''})"
    unfolding AuthProps_def accepts_tObj by simp
qed (rule accepts_loginWith)


theorem AuthProps_shape_witness:
  "accepts (AuthProps cdk)
     (VObj [''loginWith'' \<mapsto>
              VObj [''email'' \<mapsto> VBool True,
                    ''externalProviders'' \<mapsto>
                       VObj [''callbackUrls'' \<mapsto> VArr [VStr ''https://example.com/in'']]],
            ''multifactor'' \<mapsto>
              VObj [''enforcementType'' \<mapsto> VStr ''REQUIRED'', ''totp'' \<mapsto> VBool True,
                    ''sms'' \<mapsto> VBool False],
            ''accountRecovery'' \<mapsto> VInst ''AccountRecovery'']) \<and>
   \<not> accepts (AuthProps cdk)
     (VObj [''loginWith'' \<mapsto> VObj [''email'' \<mapsto> VBool True],
            ''triggers'' \<mapsto> VObj Map.empty])"
proof
  let ?L = "VObj [''email'' \<mapsto> VBool True,
                    ''externalProviders'' \<mapsto>
                       VObj [''callbackUrls'' \<mapsto> VArr [VStr ''https://example.com/in'']]]"
  let ?V = "VObj [''loginWith'' \<mapsto> ?L,
            ''multifactor'' \<mapsto>
              VObj [''enforcementType'' \<mapsto> VStr ''REQUIRED'', ''totp'' \<mapsto> VBool True,
                    ''sms'' \<mapsto> VBool False],
            ''accountRecovery'' \<mapsto> VInst ''AccountRecovery'']"
  let ?W = "VObj [''loginWith'' \<mapsto> VObj [''email'' \<mapsto> VBool True],
            ''triggers'' \<mapsto> VObj Map.empty]"
  have l: "accepts (tInter BasicLoginOptions (ExternalProviderProps cdk)) ?L"
    by (rule AuthProps_shape [of cdk ?V ?L, THEN conjunct2, THEN conjunct2, THEN iffD2])
       (simp add: EmailLogin_def ExternalProviderOptions_def)
  have m: "accepts MFA (VObj [''enforcementType'' \<mapsto> VStr ''REQUIRED'', ''totp'' \<mapsto> VBool True,
                    ''sms'' \<mapsto> VBool False])"
    by (simp add: MFA_def MFASettings_def accepts_tUnion_same accepts_sms)
  have r: "accepts (AccountRecovery cdk) (VInst ''AccountRecovery'')"
    by (simp add: cdk_def)
  show "accepts (AuthProps cdk) ?V"
    by (rule AuthProps_shape [of cdk ?V ?L, THEN conjunct2, THEN conjunct1, THEN iffD2])
       (simp add: l m r del: accepts_VObj accepts_VInst)
  show "\<not> accepts (AuthProps cdk) ?W"
  proof
    assume "accepts (AuthProps cdk) ?W"
    from AuthProps_shape [of cdk ?W ?L, THEN conjunct2, THEN conjunct1, THEN iffD1, OF this]
    show False by simp
  qed
qed

text \<open>
  C5 (amended). \<open>ExternalProviderOptions\<close> offers optional per-provider bundles for exactly
  six identity providers (\<open>google\<close>, \<open>facebook\<close>, \<open>loginWithAmazon\<close>, \<open>signInWithApple\<close>,
  \<open>oidc\<close>, \<open>saml\<close>), plus the shared optional lists \<open>scopes\<close>, \<open>callbackUrls\<close> and
  \<open>logoutUrls\<close>, and no other property.
\<close>

theorem ExternalProviderOptions_shape:
  "known (ExternalProviderOptions s) =
     {''google'', ''facebook'', ''loginWithAmazon'', ''signInWithApple'', ''oidc'', ''saml'',
      ''scopes'', ''callbackUrls'', ''logoutUrls''} \<and>
   (accepts (ExternalProviderOptions s) v \<longleftrightarrow>
     (\<exists>m. v = VObj m \<and>
        (\<forall>x. m ''google'' = Some x \<longrightarrow> x = VUndefined \<or> accepts (GoogleProviderProps s) x) \<and>
        (\<forall>x. m ''facebook'' = Some x \<longrightarrow>
             x = VUndefined \<or> accepts (FacebookProviderProps s) x) \<and>
        (\<forall>x. m ''loginWithAmazon'' = Some x \<longrightarrow>
             x = VUndefined \<or> accepts (AmazonProviderProps s) x) \<and>
        (\<forall>x. m ''signInWithApple'' = Some x \<longrightarrow>
             x = VUndefined \<or> accepts (AppleProviderProps s) x) \<and>
        (\<forall>x. m ''oidc'' = Some x \<longrightarrow> x = VUndefined \<or> accepts (OidcProviderProps s) x) \<and>
        (\<forall>x. m ''saml'' = Some x \<longrightarrow> x = VUndefined \<or> accepts (SamlProviderProps s) x) \<and>
        (\<forall>x. m ''scopes'' = Some x \<longrightarrow>
             x = VUndefined \<or> (\<exists>xs. x = VArr xs \<and> list_all (accepts (OAuthScope s)) xs)) \<and>
        (\<forall>x. m ''callbackUrls'' = Some x \<longrightarrow>
             x = VUndefined \<or> (\<exists>xs. x = VArr xs \<and> list_all (accepts tString) xs)) \<and>
        (\<forall>x. m ''logoutUrls'' = Some x \<longrightarrow>
             x = VUndefined \<or> (\<exists>xs. x = VArr xs \<and> list_all (accepts tString) xs)) \<and>
        dom m \<subseteq> {''google'', ''facebook'', ''loginWithAmazon'', ''signInWithApple'', ''oidc'',
                 ''saml'', ''scopes'', ''callbackUrls'', ''logoutUrls''}))"
proof (intro conjI)
  show "known (ExternalProviderOptions s) =
     {''google'', ''facebook'', ''loginWithAmazon'', ''signInWithApple'', ''oidc'', ''saml'',
      ''scopes'', ''callbackUrls'', ''logoutUrls''}"
    by (simp add: ExternalProviderOptions_def)
qed (rule accepts_ExternalProviderOptions)


theorem ExternalProviderOptions_shape_witness:
  "accepts (ExternalProviderOptions cdk)
     (VObj [''google'' \<mapsto> VObj [''clientId'' \<mapsto> VStr ''g-id''],
            ''facebook'' \<mapsto>
               VObj [''clientId'' \<mapsto> VStr ''f-id'', ''clientSecret'' \<mapsto> VStr ''f-secret''],
            ''loginWithAmazon'' \<mapsto>
               VObj [''clientId'' \<mapsto> VStr ''a-id'', ''clientSecret'' \<mapsto> VStr ''a-secret''],
            ''signInWithApple'' \<mapsto>
               VObj [''clientId'' \<mapsto> VStr ''s-id'', ''teamId'' \<mapsto> VStr ''team'',
                     ''keyId'' \<mapsto> VStr ''key'', ''privateKey'' \<mapsto> VStr ''pem''],
            ''oidc'' \<mapsto>
               VObj [''clientId'' \<mapsto> VStr ''o-id'', ''clientSecret'' \<mapsto> VStr ''o-secret'',
                     ''issuerUrl'' \<mapsto> VStr ''https://example.com''],
            ''saml'' \<mapsto>
               VObj [''metadata'' \<mapsto> VInst ''UserPoolIdentityProviderSamlMetadata'',
                     ''name'' \<mapsto> VStr ''corp''],
            ''scopes'' \<mapsto> VArr [VInst ''OAuthScope''],
            ''callbackUrls'' \<mapsto> VArr [VStr ''https://example.com/in''],
            ''logoutUrls'' \<mapsto> VArr [VStr ''https://example.com/out'']]) \<and>
   \<not> accepts (ExternalProviderOptions cdk)
     (VObj [''twitter'' \<mapsto> VObj [''clientId'' \<mapsto> VStr ''id'']])"
proof
  let ?V = "VObj [''google'' \<mapsto> VObj [''clientId'' \<mapsto> VStr ''g-id''],
            ''facebook'' \<mapsto>
               VObj [''clientId'' \<mapsto> VStr ''f-id'', ''clientSecret'' \<mapsto> VStr ''f-secret''],
            ''loginWithAmazon'' \<mapsto>
               VObj [''clientId'' \<mapsto> VStr ''a-id'', ''clientSecret'' \<mapsto> VStr ''a-secret''],
            ''signInWithApple'' \<mapsto>
               VObj [''clientId'' \<mapsto> VStr ''s-id'', ''teamId'' \<mapsto> VStr ''team'',
                     ''keyId'' \<mapsto> VStr ''key'', ''privateKey'' \<mapsto> VStr ''pem''],
            ''oidc'' \<mapsto>
               VObj [''clientId'' \<mapsto> VStr ''o-id'', ''clientSecret'' \<mapsto> VStr ''o-secret'',
                     ''issuerUrl'' \<mapsto> VStr ''https://example.com''],
            ''saml'' \<mapsto>
               VObj [''metadata'' \<mapsto> VInst ''UserPoolIdentityProviderSamlMetadata'',
                     ''name'' \<mapsto> VStr ''corp''],
            ''scopes'' \<mapsto> VArr [VInst ''OAuthScope''],
            ''callbackUrls'' \<mapsto> VArr [VStr ''https://example.com/in''],
            ''logoutUrls'' \<mapsto> VArr [VStr ''https://example.com/out'']]"
  let ?W = "VObj [''twitter'' \<mapsto> VObj [''clientId'' \<mapsto> VStr ''id'']]"
  show "accepts (ExternalProviderOptions cdk) ?V"
    by (rule ExternalProviderOptions_shape [of cdk ?V, THEN conjunct2, THEN iffD2])
       (simp add: GoogleProviderProps_def FacebookProviderProps_def AmazonProviderProps_def
          AppleProviderProps_def OidcProviderProps_def SamlProviderProps_def cdk_def
          cdk_UserPoolIdentityProviderProps_def Omit_def)
  show "\<not> accepts (ExternalProviderOptions cdk) ?W"
  proof
    assume "accepts (ExternalProviderOptions cdk) ?W"
    from ExternalProviderOptions_shape [of cdk ?W, THEN conjunct2, THEN iffD1, OF this]
    show False by simp
  qed
qed


section \<open>Which properties are optional\<close>

text \<open>
  C7 (as stated, refuted). Not every declared property is optional: \<open>totp\<close> of
  \<open>MFASettings\<close> is declared without \<open>?\<close>, and an accepted value with \<open>totp\<close> left out is no
  longer a value of the shape.
\<close>

theorem MFASettings_totp_required:
  "accepts MFASettings (VObj [''totp'' \<mapsto> VBool True, ''sms'' \<mapsto> VBool True]) \<and>
   \<not> accepts MFASettings
        (drop_key ''totp'' (VObj [''totp'' \<mapsto> VBool True, ''sms'' \<mapsto> VBool True]))"
  by (simp add: MFASettings_def)

lemma neither_login_rejected:
  "m ''email'' = None \<and> m ''phone'' = None \<longrightarrow> \<not> accepts BasicLoginOptions (VObj m)"
  by (simp add: BasicLoginOptions_def)

text \<open>
  C7 (amended). The properties declared in the file are optional, with these exceptions:
  \<open>loginWith\<close> of \<open>AuthProps\<close>, \<open>enforcementType\<close> of \<open>MFA\<close>, \<open>totp\<close> and \<open>sms\<close> of
  \<open>MFASettings\<close>, \<open>smsMessage\<close> of the \<open>sms\<close> settings object, and in
  \<open>BasicLoginOptions\<close> the one of \<open>email\<close> and \<open>phone\<close> that is the only login method given.
  For each shape, an accepted value with one of its optional properties left out is still
  accepted (for \<open>BasicLoginOptions\<close>: \<open>email\<close> may go when \<open>phone\<close> is given, and the
  other way round); a value that lacks one of the excepted properties is not accepted.
\<close>

theorem optional_fields_may_be_absent:
  "(accepts EmailLoginSettings ve \<longrightarrow> accepts EmailLoginSettings (drop_key ke ve)) \<and>
   (accepts EmailLogin vl \<longrightarrow> accepts EmailLogin (drop_key kl vl)) \<and>
   (accepts PhoneNumberLogin vp \<longrightarrow> accepts PhoneNumberLogin (drop_key kp vp)) \<and>
   (accepts BasicLoginOptions (VObj mb) \<and> mb ''phone'' = Some p \<and> accepts PhoneNumberLogin p \<longrightarrow>
      accepts BasicLoginOptions (drop_key ''email'' (VObj mb))) \<and>
   (accepts BasicLoginOptions (VObj mc) \<and> mc ''email'' = Some e \<and> accepts EmailLogin e \<longrightarrow>
      accepts BasicLoginOptions (drop_key ''phone'' (VObj mc))) \<and>
   (accepts (GoogleProviderProps s) vg \<longrightarrow>
      accepts (GoogleProviderProps s) (drop_key ''clientSecret'' vg)) \<and>
   (accepts (ExternalProviderOptions s) vo \<longrightarrow>
      accepts (ExternalProviderOptions s) (drop_key ko vo)) \<and>
   (accepts (ExternalProviderProps s) vx \<longrightarrow>
      accepts (ExternalProviderProps s) (drop_key kx vx)) \<and>
   (accepts (AuthProps s) va \<and> ka \<noteq> ''loginWith'' \<longrightarrow>
      accepts (AuthProps s) (drop_key ka va)) \<and>
   (m ''loginWith'' = None \<longrightarrow> \<not> accepts (AuthProps s) (VObj m)) \<and>
   (m ''enforcementType'' = None \<or> m ''totp'' = None \<or> m ''sms'' = None \<longrightarrow>
      \<not> accepts MFA (VObj m)) \<and>
   (m ''totp'' = None \<or> m ''sms'' = None \<longrightarrow> \<not> accepts MFASettings (VObj m)) \<and>
   (m ''smsMessage'' = None \<longrightarrow> \<not> accepts (tObj [req ''smsMessage'' tTemplate]) (VObj m)) \<and>
   (m ''email'' = None \<and> m ''phone'' = None \<longrightarrow> \<not> accepts BasicLoginOptions (VObj m))"
proof -
  have 1: "accepts EmailLoginSettings ve \<longrightarrow> accepts EmailLoginSettings (drop_key ke ve)"
    by (intro impI) (rule EmailLoginSettings_drop)
  have 2: "accepts EmailLogin vl \<longrightarrow> accepts EmailLogin (drop_key kl vl)"
    by (intro impI) (rule EmailLogin_drop)
  have 3: "accepts PhoneNumberLogin vp \<longrightarrow> accepts PhoneNumberLogin (drop_key kp vp)"
    by (intro impI) (rule PhoneNumberLogin_drop)
  have 4: "accepts BasicLoginOptions (VObj mb) \<and> mb ''phone'' = Some p \<and>
      accepts PhoneNumberLogin p \<longrightarrow> accepts BasicLoginOptions (drop_key ''email'' (VObj mb))"
    by (intro impI, elim conjE) (rule BasicLoginOptions_drop_email)
  have 5: "accepts BasicLoginOptions (VObj mc) \<and> mc ''email'' = Some e \<and>
      accepts EmailLogin e \<longrightarrow> accepts BasicLoginOptions (drop_key ''phone'' (VObj mc))"
    by (intro impI, elim conjE) (rule BasicLoginOptions_drop_phone)
  have 6: "accepts (GoogleProviderProps s) vg \<longrightarrow>
      accepts (GoogleProviderProps s) (drop_key ''clientSecret'' vg)"
    by (intro impI) (rule GoogleProviderProps_drop)
  have 7: "accepts (ExternalProviderOptions s) vo \<longrightarrow>
      accepts (ExternalProviderOptions s) (drop_key ko vo)"
    by (intro impI) (rule ExternalProviderOptions_drop)
  have 8: "accepts (ExternalProviderProps s) vx \<longrightarrow>
      accepts (ExternalProviderProps s) (drop_key kx vx)"
    by (intro impI) (rule ExternalProviderProps_drop)
  have 9: "accepts (AuthProps s) va \<and> ka \<noteq> ''loginWith'' \<longrightarrow>
      accepts (AuthProps s) (drop_key ka va)"
    by (intro impI, elim conjE) (rule AuthProps_drop)
  note r = required_missing [of m s]
  show ?thesis
    by (intro conjI 1 2 3 4 5 6 7 8 9 r [THEN conjunct1] r [THEN conjunct2, THEN conjunct1]
          r [THEN conjunct2, THEN conjunct2, THEN conjunct1]
          r [THEN conjunct2, THEN conjunct2, THEN conjunct2] neither_login_rejected)
qed


theorem optional_fields_may_be_absent_witness:
  "accepts EmailLoginSettings
     (drop_key ''verificationEmailSubject''
        (VObj [''verificationEmailStyle'' \<mapsto> VStr ''CODE'',
               ''verificationEmailSubject'' \<mapsto> VStr ''Welcome''])) \<and>
   accepts EmailLogin
     (drop_key ''verificationEmailStyle''
        (VObj [''verificationEmailStyle'' \<mapsto> VStr ''CODE'',
               ''verificationEmailSubject'' \<mapsto> VStr ''Welcome''])) \<and>
   accepts PhoneNumberLogin
     (drop_key ''verificationMessage''
        (VObj [''verificationMessage'' \<mapsto> VFun (\<lambda>code. ''Code: '' @ code)])) \<and>
   accepts BasicLoginOptions
     (drop_key ''email'' (VObj [''email'' \<mapsto> VBool True, ''phone'' \<mapsto> VBool True])) \<and>
   accepts BasicLoginOptions
     (drop_key ''phone'' (VObj [''email'' \<mapsto> VBool True, ''phone'' \<mapsto> VBool True])) \<and>
   accepts (GoogleProviderProps cdk)
     (drop_key ''clientSecret''
        (VObj [''clientId'' \<mapsto> VStr ''id'', ''clientSecret'' \<mapsto> VInst ''SecretValue''])) \<and>
   accepts (ExternalProviderOptions cdk)
     (drop_key ''google''
        (VObj [''google'' \<mapsto> VObj [''clientId'' \<mapsto> VStr ''id''],
               ''callbackUrls'' \<mapsto> VArr [VStr ''https://example.com/in'']])) \<and>
   accepts (ExternalProviderProps cdk)
     (drop_key ''externalProviders'' (VObj [''externalProviders'' \<mapsto> VObj Map.empty])) \<and>
   accepts (AuthProps cdk)
     (drop_key ''multifactor''
        (VObj [''loginWith'' \<mapsto> VObj [''email'' \<mapsto> VBool True],
               ''multifactor'' \<mapsto>
                  VObj [''enforcementType'' \<mapsto> VStr ''OFF'', ''totp'' \<mapsto> VBool False,
                        ''sms'' \<mapsto> VBool False]])) \<and>
   \<not> accepts (AuthProps cdk) (VObj Map.empty) \<and>
   \<not> accepts MFA (VObj Map.empty) \<and>
   \<not> accepts MFASettings (VObj Map.empty) \<and>
   \<not> accepts (tObj [req ''smsMessage'' tTemplate]) (VObj Map.empty) \<and>
   \<not> accepts BasicLoginOptions (VObj Map.empty)"
proof -
  let ?Ve = "VObj [''verificationEmailStyle'' \<mapsto> VStr ''CODE'',
               ''verificationEmailSubject'' \<mapsto> VStr ''Welcome'']"
  let ?Vp = "VObj [''verificationMessage'' \<mapsto> VFun (\<lambda>code. ''Code: '' @ code)]"
  let ?Mb = "[''email'' \<mapsto> VBool True, ''phone'' \<mapsto> VBool True]"
  let ?Vg = "VObj [''clientId'' \<mapsto> VStr ''id'', ''clientSecret'' \<mapsto> VInst ''SecretValue'']"
  let ?Vo = "VObj [''google'' \<mapsto> VObj [''clientId'' \<mapsto> VStr ''id''],
               ''callbackUrls'' \<mapsto> VArr [VStr ''https://example.com/in'']]"
  let ?Vx = "VObj [''externalProviders'' \<mapsto> VObj Map.empty]"
  let ?Va = "VObj [''loginWith'' \<mapsto> VObj [''email'' \<mapsto> VBool True],
               ''multifactor'' \<mapsto>
                  VObj [''enforcementType'' \<mapsto> VStr ''OFF'', ''totp'' \<mapsto> VBool False,
                        ''sms'' \<mapsto> VBool False]]"
  note t = optional_fields_may_be_absent
    [where ve = ?Ve and ke = "''verificationEmailSubject''"
       and vl = ?Ve and kl = "''verificationEmailStyle''"
       and vp = ?Vp and kp = "''verificationMessage''"
       and mb = ?Mb and p = "VBool True" and mc = ?Mb and e = "VBool True"
       and s = cdk and vg = ?Vg and vo = ?Vo and ko = "''google''"
       and vx = ?Vx and kx = "''externalProviders''"
       and va = ?Va and ka = "''multifactor''" and m = Map.empty]
  note t1 = t [THEN conjunct1] and r1 = t [THEN conjunct2]
  note t2 = r1 [THEN conjunct1] and r2 = r1 [THEN conjunct2]
  note t3 = r2 [THEN conjunct1] and r3 = r2 [THEN conjunct2]
  note t4 = r3 [THEN conjunct1] and r4 = r3 [THEN conjunct2]
  note t5 = r4 [THEN conjunct1] and r5 = r4 [THEN conjunct2]
  note t6 = r5 [THEN conjunct1] and r6 = r5 [THEN conjunct2]
  note t7 = r6 [THEN conjunct1] and r7 = r6 [THEN conjunct2]
  note t8 = r7 [THEN conjunct1] and r8 = r7 [THEN conjunct2]
  note t9 = r8 [THEN conjunct1] and r9 = r8 [THEN conjunct2]
  note t10 = r9 [THEN conjunct1] and r10 = r9 [THEN conjunct2]
  note t11 = r10 [THEN conjunct1] and r11 = r10 [THEN conjunct2]
  note t12 = r11 [THEN conjunct1] and r12 = r11 [THEN conjunct2]
  note t13 = r12 [THEN conjunct1] and t14 = r12 [THEN conjunct2]
  have h1: "accepts EmailLoginSettings ?Ve"
    by (simp add: EmailLoginSettings_def accepts_tUnion_same)
  have h2: "accepts EmailLogin ?Ve"
    by (simp add: EmailLogin_def EmailLoginSettings_def accepts_tUnion_same)
  have h3: "accepts PhoneNumberLogin ?Vp"
    by (simp add: PhoneNumberLogin_def)
  have tr: "accepts PhoneNumberLogin (VBool True)" "accepts EmailLogin (VBool True)"
    by (simp_all add: PhoneNumberLogin_def EmailLogin_def)
  have h4: "accepts BasicLoginOptions (VObj ?Mb)"
    by (simp add: BasicLoginOptions_def EmailLogin_def PhoneNumberLogin_def)
  have g4: "?Mb ''phone'' = Some (VBool True)" and g5: "?Mb ''email'' = Some (VBool True)"
    by simp_all
  have h6: "accepts (GoogleProviderProps cdk) ?Vg"
    by (simp add: GoogleProviderProps_def cdk_def cdk_UserPoolIdentityProviderProps_def Omit_def)
  have h7: "accepts (ExternalProviderOptions cdk) ?Vo"
    by (simp add: ExternalProviderOptions_def GoogleProviderProps_def cdk_def cdk_UserPoolIdentityProviderProps_def Omit_def)
  have h8: "accepts (ExternalProviderProps cdk) ?Vx"
    by (simp add: ExternalProviderProps_def ExternalProviderOptions_def)
  have h9: "accepts (AuthProps cdk) ?Va"
    by (simp add: AuthProps_def BasicLoginOptions_def EmailLogin_def ExternalProviderProps_def
          MFA_def MFASettings_def accepts_tUnion_same)
  have k9: "''multifactor'' \<noteq> ''loginWith''"
    by simp
  have n: "Map.empty ''loginWith'' = (None :: jsval option)"
    "Map.empty ''enforcementType'' = (None :: jsval option) \<or>
     Map.empty ''totp'' = (None :: jsval option) \<or> Map.empty ''sms'' = (None :: jsval option)"
    "Map.empty ''totp'' = (None :: jsval option) \<or> Map.empty ''sms'' = (None :: jsval option)"
    "Map.empty ''smsMessage'' = (None :: jsval option)"
    "Map.empty ''email'' = (None :: jsval option) \<and> Map.empty ''phone'' = (None :: jsval option)"
    by simp_all
  show ?thesis
    by (intro conjI t1 [THEN mp, OF h1] t2 [THEN mp, OF h2] t3 [THEN mp, OF h3]
          t4 [THEN mp, OF conjI [OF h4 conjI [OF g4 tr(1)]]]
          t5 [THEN mp, OF conjI [OF h4 conjI [OF g5 tr(2)]]]
          t6 [THEN mp, OF h6] t7 [THEN mp, OF h7] t8 [THEN mp, OF h8]
          t9 [THEN mp, OF conjI [OF h9 k9]]
          t10 [THEN mp, OF n(1)] t11 [THEN mp, OF n(2)] t12 [THEN mp, OF n(3)]
          t13 [THEN mp, OF n(4)] t14 [THEN mp, OF n(5)])
qed

end
